theory Spec2Isabelle
  imports Complex_Main "HOL-Library.Word" "HOL-Library.List_Lexorder" "HOL-Library.Char_ord"
begin

section \<open>Strings\<close>

text \<open>
  A JavaScript string is modelled as an Isabelle \<open>string\<close>. For ASCII text one \<open>char\<close> is at
  the same time the UTF-16 code unit that \<open>.length\<close> and the regular expressions see and the
  UTF-8 byte that the cipher sees.
\<close>

text \<open>\<open>s.includes(pat)\<close>, and \<open>/pat/.test(s)\<close> for a pattern without metacharacters.\<close>

fun includes_str :: "string \<Rightarrow> string \<Rightarrow> bool" where
  "includes_str [] pat = (pat = [])"
| "includes_str (c # cs) pat = (take (length pat) (c # cs) = pat \<or> includes_str cs pat)"

definition is_upper :: "char \<Rightarrow> bool" where
  "is_upper c = (65 \<le> (of_char c :: nat) \<and> (of_char c :: nat) \<le> 90)"


definition is_digit :: "char \<Rightarrow> bool" where
  "is_digit c = (48 \<le> (of_char c :: nat) \<and> (of_char c :: nat) \<le> 57)"


definition lower_char :: "char \<Rightarrow> char" where
  "lower_char c = (if is_upper c then char_of ((of_char c :: nat) + 32) else c)"

definition toLowerCase :: "string \<Rightarrow> string" where
  "toLowerCase s = map lower_char s"

section \<open>Password strength: \<open>PasswordEncryption.validatePasswordStrength\<close>\<close>

record criteria_flags =
  minLength :: bool
  hasUppercase :: bool
  hasLowercase :: bool
  hasNumbers :: bool
  hasSymbols :: bool
  noCommonPatterns :: bool

record strength_result =
  isValid :: bool
  strength :: string
  score :: int
  suggestions :: "string list"
  criteria :: criteria_flags




text \<open>The \<open>for (let pattern of commonPatterns)\<close> loop, which stops at the first match.\<close>

fun common_pattern_loop :: "string list \<Rightarrow> string \<Rightarrow> strength_result \<Rightarrow> strength_result" where
  "common_pattern_loop [] password r = r"
| "common_pattern_loop (pattern # rest) password r =
     (if includes_str (toLowerCase password) pattern
      then r\<lparr>criteria := (criteria r)\<lparr>noCommonPatterns := False\<rparr>,
             score := max 0 (score r - 1),
             suggestions := suggestions r @ [''Avoid common patterns'']\<rparr>
      else common_pattern_loop rest password r)"






section \<open>Errors and promises\<close>

text \<open>
  A thrown JavaScript \<open>Error\<close> with its message. The result of a function that may throw (or
  of an \<open>async\<close> function, whose promise is rejected or fulfilled) is a sum: \<open>Inl\<close> the error
  that reaches the caller, \<open>Inr\<close> the value returned.
\<close>

datatype error = Error string

definition and_then :: "error + 'a \<Rightarrow> ('a \<Rightarrow> error + 'b) \<Rightarrow> error + 'b" where
  "and_then r f = (case r of Inl e \<Rightarrow> Inl e | Inr v \<Rightarrow> f v)"

definition try_catch :: "error + 'a \<Rightarrow> (error \<Rightarrow> error + 'a) \<Rightarrow> error + 'a" where
  "try_catch body handler = (case body of Inl e \<Rightarrow> handler e | Inr v \<Rightarrow> Inr v)"

section \<open>Buffers\<close>

type_synonym byte = "8 word"
type_synonym buffer = "byte list"

text \<open>\<open>Buffer.from(s, 'utf8')\<close> and \<open>buf.toString('utf8')\<close> on the bytes of a string.\<close>

definition utf8_bytes :: "string \<Rightarrow> buffer" where
  "utf8_bytes s = map (\<lambda>c. of_nat (of_char c)) s"

definition utf8_text :: "buffer \<Rightarrow> string" where
  "utf8_text b = map (\<lambda>w. char_of (unat w)) b"

text \<open>\<open>buf.slice(start, end)\<close> for \<open>0 \<le> start \<le> end\<close>; both are clamped to the length.\<close>

definition slice :: "buffer \<Rightarrow> nat \<Rightarrow> nat \<Rightarrow> buffer" where
  "slice b start stop = take (stop - start) (drop start b)"

text \<open>The \<open>'hex'\<close> encoding: two lowercase digits a byte; decoding stops at the first pair
  that is not two hexadecimal digits.\<close>

definition hex_digit :: "nat \<Rightarrow> char" where
  "hex_digit n = ''0123456789abcdef'' ! (n mod 16)"

definition to_hex :: "buffer \<Rightarrow> string" where
  "to_hex b = concat (map (\<lambda>w. [hex_digit (unat w div 16), hex_digit (unat w mod 16)]) b)"

definition hex_value :: "char \<Rightarrow> nat option" where
  "hex_value c =
     (if is_digit c then Some (of_char c - 48)
      else if 97 \<le> (of_char c :: nat) \<and> (of_char c :: nat) \<le> 102 then Some (of_char c - 87)
      else if 65 \<le> (of_char c :: nat) \<and> (of_char c :: nat) \<le> 70 then Some (of_char c - 55)
      else None)"

fun from_hex :: "string \<Rightarrow> buffer" where
  "from_hex (a # b # rest) =
     (case (hex_value a, hex_value b) of
        (Some h, Some l) \<Rightarrow> of_nat (16 * h + l) # from_hex rest
      | _ \<Rightarrow> [])"
| "from_hex _ = []"

section \<open>The primitives of Node's \<open>crypto\<close> and \<open>Buffer\<close>\<close>

text \<open>
  The class calls \<open>crypto.pbkdf2Sync\<close>, \<open>crypto.createCipheriv\<close>, \<open>crypto.createDecipheriv\<close>,
  the \<open>update\<close> and \<open>final\<close> methods of the objects these return, and the base64 conversions
  of \<open>Buffer\<close>. They are library code, taken as parameters: \<open>'c\<close> is the state of a Cipher
  object and \<open>'d\<close> of a Decipher object. Each call that can throw returns a sum. The base64
  conversions do not throw; decoding a malformed text yields the bytes it can read.
\<close>

record ('c, 'd) node_api =
  pbkdf2Sync :: "string \<Rightarrow> buffer \<Rightarrow> nat \<Rightarrow> nat \<Rightarrow> string \<Rightarrow> error + buffer"
  createCipheriv :: "string \<Rightarrow> buffer \<Rightarrow> buffer \<Rightarrow> error + 'c"
  cipher_update :: "'c \<Rightarrow> buffer \<Rightarrow> error + buffer \<times> 'c"
  cipher_final :: "'c \<Rightarrow> error + buffer"
  createDecipheriv :: "string \<Rightarrow> buffer \<Rightarrow> buffer \<Rightarrow> error + 'd"
  decipher_update :: "'d \<Rightarrow> buffer \<Rightarrow> error + buffer \<times> 'd"
  decipher_final :: "'d \<Rightarrow> error + buffer"
  toBase64 :: "buffer \<Rightarrow> string"
  fromBase64 :: "string \<Rightarrow> buffer"



section \<open>The credential cipher: class \<open>PasswordEncryption\<close>\<close>

text \<open>The fields set by the constructor.\<close>

definition algorithm :: string where "algorithm = ''aes-256-cbc''"
definition keyLength :: nat where "keyLength = 32"
definition ivLength :: nat where "ivLength = 16"
definition saltLength :: nat where "saltLength = 32"
definition iterations :: nat where "iterations = 100000"
definition hashAlgorithm :: string where "hashAlgorithm = ''sha512''"


definition deriveKey :: "('c, 'd) node_api \<Rightarrow> string \<Rightarrow> buffer \<Rightarrow> error + buffer" where
  "deriveKey N password salt = pbkdf2Sync N password salt iterations keyLength hashAlgorithm"



text \<open>The \<open>try\<close> block of \<open>comparePassword\<close>. The ciphertext reaches \<open>decipher.update\<close> as a
  Buffer, for which the input encoding argument is ignored.\<close>

definition comparePassword_body ::
  "('c, 'd) node_api \<Rightarrow> string \<Rightarrow> string \<Rightarrow> error + bool" where
  "comparePassword_body N candidatePassword hashedPassword =
     (let combined = fromBase64 N hashedPassword;
          salt = slice combined 0 saltLength;
          iv = slice combined saltLength (saltLength + ivLength);
          encrypted = drop (saltLength + ivLength) combined
      in and_then (deriveKey N candidatePassword salt) (\<lambda>key.
         and_then (createDecipheriv N algorithm key iv) (\<lambda>decipher.
         and_then (decipher_update N decipher encrypted) (\<lambda>(part1, decipher1).
         and_then (decipher_final N decipher1) (\<lambda>part2.
           let decrypted = utf8_text part1 @ utf8_text part2;
               isMatch = (decrypted = candidatePassword)
           in Inr isMatch)))))"

definition comparePassword ::
  "('c, 'd) node_api \<Rightarrow> string \<Rightarrow> string \<Rightarrow> error + bool" where
  "comparePassword N candidatePassword hashedPassword =
     try_catch (comparePassword_body N candidatePassword hashedPassword)
       (\<lambda>error. Inr False)"

text \<open>
  An executable instance of the primitives, for running the model on concrete inputs. As
  Node does, its key derivation accepts a salt of any length and returns the number of
  bytes asked for, and its cipher constructors reject a key that is not 32 bytes and an
  initialisation vector that is not 16 bytes. The cipher itself is a stand-in: each byte is
  combined with the first byte of the key and of the vector, and \<open>final\<close> adds or checks one
  marker block. The base64 conversions are stood in for by the hex ones.
\<close>

definition demo_pbkdf2 :: "string \<Rightarrow> buffer \<Rightarrow> nat \<Rightarrow> nat \<Rightarrow> string \<Rightarrow> error + buffer" where
  "demo_pbkdf2 password salt iters keylen digest =
     (if digest = ''sha512'' then Inr (take keylen (utf8_bytes password @ salt @ replicate keylen 0))
      else Inl (Error ''Invalid digest''))"

definition demo_create :: "string \<Rightarrow> buffer \<Rightarrow> buffer \<Rightarrow> error + byte" where
  "demo_create alg key iv =
     (if alg \<noteq> ''aes-256-cbc'' then Inl (Error ''Unknown cipher'')
      else if length key \<noteq> 32 then Inl (Error ''Invalid key length'')
      else if length iv \<noteq> 16 then Inl (Error ''Invalid initialization vector'')
      else Inr (hd key + hd iv))"

definition demo_encrypt_final :: "byte \<Rightarrow> error + buffer" where
  "demo_encrypt_final k = Inr [k]"

definition demo_decrypt_update :: "byte \<Rightarrow> buffer \<Rightarrow> error + buffer \<times> (byte \<times> buffer)" where
  "demo_decrypt_update k data = Inr (map (\<lambda>b. b - k) (butlast data), (k, drop (length data - 1) data))"

definition demo_decrypt_final :: "byte \<times> buffer \<Rightarrow> error + buffer" where
  "demo_decrypt_final st = (if snd st = [fst st] then Inr [] else Inl (Error ''bad decrypt''))"

definition demo_api :: "(byte, byte \<times> buffer) node_api" where
  "demo_api =
     \<lparr>pbkdf2Sync = demo_pbkdf2,
      createCipheriv = demo_create,
      cipher_update = (\<lambda>k data. Inr (map (\<lambda>b. b + k) data, k)),
      cipher_final = demo_encrypt_final,
      createDecipheriv = (\<lambda>alg key iv. and_then (demo_create alg key iv) (\<lambda>k. Inr (k, []))),
      decipher_update = (\<lambda>st data. demo_decrypt_update (fst st) data),
      decipher_final = demo_decrypt_final,
      toBase64 = to_hex,
      fromBase64 = from_hex\<rparr>"


section \<open>JSON values and the JavaScript runtime\<close>

text \<open>
  The values \<open>JSON.stringify\<close> can write and \<open>JSON.parse\<close> can return. Numbers are exact
  rationals. A field of an object is a pair of its name and its value, in insertion order.
\<close>

datatype json =
    JNull
  | JBool bool
  | JNum rat
  | JStr string
  | JArr "json list"
  | JObj "(string \<times> json) list"

text \<open>An argument or a property that may be \<open>undefined\<close>: \<open>None\<close> is \<open>undefined\<close>.\<close>

type_synonym js_value = "json option"

text \<open>
  \<open>JSON.stringify\<close>, \<open>JSON.parse\<close>, the conversion of a number to a string and
  \<open>new Date(ms).toISOString()\<close> are the runtime's, taken as parameters.
\<close>

record js_runtime =
  stringify :: "json \<Rightarrow> string"
  parse :: "string \<Rightarrow> error + json"
  number_to_string :: "rat \<Rightarrow> string"
  toISOString :: "int \<Rightarrow> error + string"

fun truthy :: "json \<Rightarrow> bool" where
  "truthy JNull = False"
| "truthy (JBool b) = b"
| "truthy (JNum n) = (n \<noteq> 0)"
| "truthy (JStr s) = (s \<noteq> [])"
| "truthy (JArr xs) = True"
| "truthy (JObj fs) = True"

fun join :: "string \<Rightarrow> string list \<Rightarrow> string" where
  "join sep [] = []"
| "join sep [x] = x"
| "join sep (x # y # ys) = x @ sep @ join sep (y # ys)"

text \<open>The string conversion of a value, as a template literal and \<open>sort()\<close> apply it.\<close>

fun to_string :: "js_runtime \<Rightarrow> json \<Rightarrow> string" where
  "to_string J JNull = ''null''"
| "to_string J (JBool b) = (if b then ''true'' else ''false'')"
| "to_string J (JNum n) = number_to_string J n"
| "to_string J (JStr s) = s"
| "to_string J (JArr xs) = join '','' (map (\<lambda>x. if x = JNull then [] else to_string J x) xs)"
| "to_string J (JObj fs) = ''[object Object]''"

text \<open>\<open>xs.join(',')\<close>: a \<open>null\<close> element contributes the empty string.\<close>

definition array_join :: "js_runtime \<Rightarrow> json list \<Rightarrow> string" where
  "array_join J xs = join '','' (map (\<lambda>x. if x = JNull then [] else to_string J x) xs)"

text \<open>\<open>xs.sort()\<close> with the default comparator: stable, by the elements' strings.\<close>

definition array_sort :: "js_runtime \<Rightarrow> json list \<Rightarrow> json list" where
  "array_sort J xs = sort_key (to_string J) xs"

text \<open>\<open>v.name\<close> for a name that is no built-in property (\<open>hitCount\<close>, \<open>result\<close>).\<close>

definition get_property :: "json \<Rightarrow> string \<Rightarrow> error + js_value" where
  "get_property v name =
     (case v of
        JNull \<Rightarrow> Inl (Error ''Cannot read properties of null'')
      | JObj fs \<Rightarrow> Inr (map_of fs name)
      | _ \<Rightarrow> Inr None)"

fun set_field :: "string \<Rightarrow> json \<Rightarrow> (string \<times> json) list \<Rightarrow> (string \<times> json) list" where
  "set_field name v [] = [(name, v)]"
| "set_field name v ((k, w) # fs) =
     (if k = name then (k, v) # fs else (k, w) # set_field name v fs)"

fun show_nat :: "nat \<Rightarrow> string" where
  "show_nat n =
     (if n < 10 then [''0123456789'' ! n]
      else show_nat (n div 10) @ [''0123456789'' ! (n mod 10)])"

declare show_nat.simps [simp del]

text \<open>The own enumerable properties that \<open>{...v}\<close> copies.\<close>

definition spread_fields :: "json \<Rightarrow> (string \<times> json) list" where
  "spread_fields v =
     (case v of
        JObj fs \<Rightarrow> fs
      | JArr xs \<Rightarrow> zip (map show_nat [0..<length xs]) xs
      | JStr s \<Rightarrow> zip (map show_nat [0..<length s]) (map (\<lambda>c. JStr [c]) s)
      | _ \<Rightarrow> [])"

text \<open>\<open>(v || 0) + 1\<close>.\<close>

definition or_zero_plus_one :: "js_runtime \<Rightarrow> js_value \<Rightarrow> json" where
  "or_zero_plus_one J v =
     (case v of
        Some (JNum n) \<Rightarrow> JNum (n + 1)
      | Some (JBool True) \<Rightarrow> JNum 2
      | Some (JStr (c # cs)) \<Rightarrow> JStr ((c # cs) @ ''1'')
      | Some (JArr xs) \<Rightarrow> JStr (to_string J (JArr xs) @ ''1'')
      | Some (JObj fs) \<Rightarrow> JStr (to_string J (JObj fs) @ ''1'')
      | _ \<Rightarrow> JNum 1)"

section \<open>The Redis server behind the client\<close>

text \<open>
  The data of the server: a key holds a text and the time (in milliseconds) at which it
  expires. A command is rejected while the server is unavailable, and \<open>SETEX\<close> rejects an
  expiry that is not positive. Each command runs at the time \<open>now\<close>.
\<close>

record redis =
  db :: "string \<Rightarrow> (string \<times> int) option"
  unavailable :: bool

definition live :: "redis \<Rightarrow> int \<Rightarrow> string \<Rightarrow> string option" where
  "live r now key =
     (case db r key of
        None \<Rightarrow> None
      | Some (text, expires) \<Rightarrow> if now < expires then Some text else None)"

definition client_get :: "redis \<Rightarrow> int \<Rightarrow> string \<Rightarrow> error + string option" where
  "client_get r now key =
     (if unavailable r then Inl (Error ''The client is closed'') else Inr (live r now key))"

definition client_setEx :: "redis \<Rightarrow> int \<Rightarrow> string \<Rightarrow> int \<Rightarrow> string \<Rightarrow> error + redis" where
  "client_setEx r now key seconds text =
     (if unavailable r then Inl (Error ''The client is closed'')
      else if seconds \<le> 0 then Inl (Error ''ERR invalid expire time in setex'')
      else Inr (r\<lparr>db := (db r)(key \<mapsto> (text, now + seconds * 1000))\<rparr>))"

definition client_del :: "redis \<Rightarrow> int \<Rightarrow> string \<Rightarrow> error + redis" where
  "client_del r now key =
     (if unavailable r then Inl (Error ''The client is closed'')
      else Inr (r\<lparr>db := (db r)(key := None)\<rparr>))"

definition client_exists :: "redis \<Rightarrow> int \<Rightarrow> string \<Rightarrow> error + nat" where
  "client_exists r now key =
     (if unavailable r then Inl (Error ''The client is closed'')
      else Inr (if live r now key = None then 0 else 1))"

definition client_mGet :: "redis \<Rightarrow> int \<Rightarrow> string list \<Rightarrow> error + string option list" where
  "client_mGet r now keys =
     (if unavailable r then Inl (Error ''The client is closed'')
      else Inr (map (live r now) keys))"

text \<open>\<open>pipeline.exec()\<close> of the queued \<open>setEx\<close> commands, in order.\<close>

fun pipeline_exec :: "redis \<Rightarrow> int \<Rightarrow> (string \<times> int \<times> string) list \<Rightarrow> error + redis" where
  "pipeline_exec r now [] =
     (if unavailable r then Inl (Error ''The client is closed'') else Inr r)"
| "pipeline_exec r now ((key, seconds, text) # rest) =
     and_then (client_setEx r now key seconds text) (\<lambda>r'. pipeline_exec r' now rest)"

section \<open>The cache backend: class \<open>RedisClient\<close>\<close>

record RedisClient =
  client :: "redis option"
  isConnected :: bool

text \<open>
  The guard \<open>if (!this.isConnected || !this.client) return ...\<close> that opens every method:
  \<open>None\<close> when it returns early, the client otherwise.
\<close>

definition connected_client :: "RedisClient \<Rightarrow> redis option" where
  "connected_client this =
     (if \<not> isConnected this \<or> client this = None then None else client this)"

text \<open>\<open>data ? \<dots> : \<dots>\<close> on the reply of \<open>GET\<close>: \<open>null\<close> and the empty text are falsy.\<close>

definition present :: "string option \<Rightarrow> bool" where
  "present data = (data \<noteq> None \<and> data \<noteq> Some [])"

definition redisClient_get ::
  "js_runtime \<Rightarrow> RedisClient \<Rightarrow> int \<Rightarrow> string \<Rightarrow> error + json \<times> RedisClient" where
  "redisClient_get J this now key =
     try_catch
       (case connected_client this of
          None \<Rightarrow> Inr (JNull, this)
        | Some r \<Rightarrow>
            and_then (client_get r now key) (\<lambda>data.
              if present data
              then and_then (parse J (the data)) (\<lambda>v. Inr (v, this))
              else Inr (JNull, this)))
       (\<lambda>error. Inr (JNull, this))"

definition redisClient_set ::
  "js_runtime \<Rightarrow> RedisClient \<Rightarrow> int \<Rightarrow> string \<Rightarrow> json \<Rightarrow> int \<Rightarrow> error + bool \<times> RedisClient" where
  "redisClient_set J this now key data expireInSeconds =
     try_catch
       (case connected_client this of
          None \<Rightarrow> Inr (False, this)
        | Some r \<Rightarrow>
            and_then (client_setEx r now key expireInSeconds (stringify J data)) (\<lambda>r'.
              Inr (True, this\<lparr>client := Some r'\<rparr>)))
       (\<lambda>error. Inr (False, this))"

definition redisClient_del ::
  "RedisClient \<Rightarrow> int \<Rightarrow> string \<Rightarrow> error + bool \<times> RedisClient" where
  "redisClient_del this now key =
     try_catch
       (case connected_client this of
          None \<Rightarrow> Inr (False, this)
        | Some r \<Rightarrow>
            and_then (client_del r now key) (\<lambda>r'. Inr (True, this\<lparr>client := Some r'\<rparr>)))
       (\<lambda>error. Inr (False, this))"

definition redisClient_exists ::
  "RedisClient \<Rightarrow> int \<Rightarrow> string \<Rightarrow> error + bool \<times> RedisClient" where
  "redisClient_exists this now key =
     try_catch
       (case connected_client this of
          None \<Rightarrow> Inr (False, this)
        | Some r \<Rightarrow>
            and_then (client_exists r now key) (\<lambda>result. Inr (result = 1, this)))
       (\<lambda>error. Inr (False, this))"

text \<open>The \<open>results.map(\<dots>)\<close> of \<open>mget\<close>: the first reply that does not parse throws.\<close>

fun parse_results :: "js_runtime \<Rightarrow> string option list \<Rightarrow> error + json list" where
  "parse_results J [] = Inr []"
| "parse_results J (result # rest) =
     and_then (if present result then parse J (the result) else Inr JNull) (\<lambda>v.
     and_then (parse_results J rest) (\<lambda>vs. Inr (v # vs)))"

definition redisClient_mget ::
  "js_runtime \<Rightarrow> RedisClient \<Rightarrow> int \<Rightarrow> string list \<Rightarrow> error + json list \<times> RedisClient" where
  "redisClient_mget J this now keys =
     try_catch
       (case connected_client this of
          None \<Rightarrow> Inr ([], this)
        | Some r \<Rightarrow>
            if length keys = 0 then Inr ([], this)
            else and_then (client_mGet r now keys) (\<lambda>results.
                 and_then (parse_results J results) (\<lambda>vs. Inr (vs, this))))
       (\<lambda>error. Inr ([], this))"

definition redisClient_mset ::
  "js_runtime \<Rightarrow> RedisClient \<Rightarrow> int \<Rightarrow> (string \<times> json) list \<Rightarrow> int \<Rightarrow>
     error + bool \<times> RedisClient" where
  "redisClient_mset J this now keyValuePairs expireInSeconds =
     try_catch
       (case connected_client this of
          None \<Rightarrow> Inr (False, this)
        | Some r \<Rightarrow>
            let pipeline = map (\<lambda>(key, v). (key, expireInSeconds, stringify J v)) keyValuePairs
            in and_then (pipeline_exec r now pipeline) (\<lambda>r'.
                 Inr (True, this\<lparr>client := Some r'\<rparr>)))
       (\<lambda>error. Inr (False, this))"

subsection \<open>Sessions\<close>

definition setSession ::
  "RedisClient \<Rightarrow> int \<Rightarrow> string \<Rightarrow> string \<Rightarrow> int \<Rightarrow> error + bool \<times> RedisClient" where
  "setSession this now userId token ttlSeconds =
     try_catch
       (case connected_client this of
          None \<Rightarrow> Inr (False, this)
        | Some r \<Rightarrow>
            let sessionKey = ''session:'' @ userId
            in and_then (client_setEx r now sessionKey ttlSeconds token) (\<lambda>r'.
                 Inr (True, this\<lparr>client := Some r'\<rparr>)))
       (\<lambda>error. Inr (False, this))"

definition getSession ::
  "RedisClient \<Rightarrow> int \<Rightarrow> string \<Rightarrow> error + string option \<times> RedisClient" where
  "getSession this now userId =
     try_catch
       (case connected_client this of
          None \<Rightarrow> Inr (None, this)
        | Some r \<Rightarrow>
            let sessionKey = ''session:'' @ userId
            in and_then (client_get r now sessionKey) (\<lambda>token. Inr (token, this)))
       (\<lambda>error. Inr (None, this))"

definition deleteSession ::
  "RedisClient \<Rightarrow> int \<Rightarrow> string \<Rightarrow> error + bool \<times> RedisClient" where
  "deleteSession this now userId =
     try_catch
       (case connected_client this of
          None \<Rightarrow> Inr (False, this)
        | Some r \<Rightarrow>
            let sessionKey = ''session:'' @ userId
            in and_then (client_del r now sessionKey) (\<lambda>r'.
                 Inr (True, this\<lparr>client := Some r'\<rparr>)))
       (\<lambda>error. Inr (False, this))"

subsection \<open>Health data\<close>

text \<open>
  The object \<open>{...healthData, cachedAt: \<dots>, expiresAt: \<dots>}\<close> that \<open>setHealthData\<close> stores;
  \<open>Date.now()\<close> is \<open>now\<close>.
\<close>

definition dataWithTimestamp :: "js_runtime \<Rightarrow> int \<Rightarrow> json \<Rightarrow> int \<Rightarrow> error + json" where
  "dataWithTimestamp J now healthData ttlSeconds =
     and_then (toISOString J now) (\<lambda>cachedAt.
     and_then (toISOString J (now + ttlSeconds * 1000)) (\<lambda>expiresAt.
       Inr (JObj (set_field ''expiresAt'' (JStr expiresAt)
                   (set_field ''cachedAt'' (JStr cachedAt) (spread_fields healthData))))))"

definition setHealthData ::
  "js_runtime \<Rightarrow> RedisClient \<Rightarrow> int \<Rightarrow> string \<Rightarrow> json \<Rightarrow> int \<Rightarrow> error + bool \<times> RedisClient" where
  "setHealthData J this now userId healthData ttlSeconds =
     try_catch
       (case connected_client this of
          None \<Rightarrow> Inr (False, this)
        | Some r \<Rightarrow>
            let healthKey = ''healthData:'' @ userId
            in and_then (dataWithTimestamp J now healthData ttlSeconds) (\<lambda>doc.
               and_then (client_setEx r now healthKey ttlSeconds (stringify J doc)) (\<lambda>r'.
                 Inr (True, this\<lparr>client := Some r'\<rparr>))))
       (\<lambda>error. Inr (False, this))"

definition getHealthData ::
  "js_runtime \<Rightarrow> RedisClient \<Rightarrow> int \<Rightarrow> string \<Rightarrow> error + json \<times> RedisClient" where
  "getHealthData J this now userId =
     try_catch
       (case connected_client this of
          None \<Rightarrow> Inr (JNull, this)
        | Some r \<Rightarrow>
            let healthKey = ''healthData:'' @ userId
            in and_then (client_get r now healthKey) (\<lambda>data.
                 if present data
                 then and_then (parse J (the data)) (\<lambda>parsedData. Inr (parsedData, this))
                 else Inr (JNull, this)))
       (\<lambda>error. Inr (JNull, this))"

subsection \<open>Calorie results\<close>

text \<open>
  A BMI is an exact rational, so \<open>Math.floor(bmi / 2.5) * 2.5\<close> is computed without
  rounding; \<open>NaN\<close> and the infinities are not modelled. The methods take no user identity.
\<close>

text \<open>The key computed by \<open>setCaloricResult\<close> (its lines up to \<open>cacheKey\<close>).\<close>

definition setCaloricResult_cacheKey :: "js_runtime \<Rightarrow> rat \<Rightarrow> js_value \<Rightarrow> string" where
  "setCaloricResult_cacheKey J bmi diseaseTypes =
     (let bmiRange = of_int (floor (bmi / 2.5)) * 2.5;
          diseaseKey =
            (case diseaseTypes of
               Some (JArr xs) \<Rightarrow> array_join J (array_sort J xs)
             | Some v \<Rightarrow> if truthy v then to_string J v else ''none''
             | None \<Rightarrow> ''none'')
      in ''calorie:'' @ number_to_string J bmiRange @ '':'' @ diseaseKey)"

text \<open>The key computed by \<open>getCaloricResult\<close>.\<close>

definition getCaloricResult_cacheKey :: "js_runtime \<Rightarrow> rat \<Rightarrow> js_value \<Rightarrow> string" where
  "getCaloricResult_cacheKey J bmi diseaseTypes =
     (let bmiRange = of_int (floor (bmi / 2.5)) * 2.5;
          diseaseKey =
            (case diseaseTypes of
               Some (JArr xs) \<Rightarrow> array_join J (array_sort J xs)
             | Some v \<Rightarrow> if truthy v then to_string J v else ''none''
             | None \<Rightarrow> ''none'')
      in ''calorie:'' @ number_to_string J bmiRange @ '':'' @ diseaseKey)"

text \<open>
  The object \<open>resultData\<close> at the moment it is stored. \<open>diseaseTypes.sort()\<close> has sorted the
  caller's array in place, so \<open>diseases\<close> is the sorted array; a property whose value is
  \<open>undefined\<close> is not written.
\<close>

definition resultData :: "js_runtime \<Rightarrow> redis \<Rightarrow> int \<Rightarrow> rat \<Rightarrow> js_value \<Rightarrow> json \<Rightarrow> error + json" where
  "resultData J r now bmi diseaseTypes calorieData =
     (let bmiRange = of_int (floor (bmi / 2.5)) * 2.5;
          cacheKey = setCaloricResult_cacheKey J bmi diseaseTypes;
          diseases =
            (case diseaseTypes of
               Some (JArr xs) \<Rightarrow> [(''diseases'', JArr (array_sort J xs))]
             | Some v \<Rightarrow> [(''diseases'', v)]
             | None \<Rightarrow> [])
      in and_then (toISOString J now) (\<lambda>cachedAt.
         and_then (client_get r now cacheKey) (\<lambda>existing.
         and_then
           (if present existing
            then and_then (parse J (the existing)) (\<lambda>existingData.
                 and_then (get_property existingData ''hitCount'') (\<lambda>count.
                   Inr (or_zero_plus_one J count)))
            else Inr (JNum 1)) (\<lambda>hitCount.
           Inr (JObj ([(''bmiRange'', JNum bmiRange)] @ diseases @
                      [(''result'', calorieData), (''cachedAt'', JStr cachedAt),
                       (''hitCount'', hitCount)]))))))"

definition setCaloricResult ::
  "js_runtime \<Rightarrow> RedisClient \<Rightarrow> int \<Rightarrow> rat \<Rightarrow> js_value \<Rightarrow> json \<Rightarrow> int \<Rightarrow>
     error + bool \<times> RedisClient" where
  "setCaloricResult J this now bmi diseaseTypes calorieData ttlSeconds =
     try_catch
       (case connected_client this of
          None \<Rightarrow> Inr (False, this)
        | Some r \<Rightarrow>
            let cacheKey = setCaloricResult_cacheKey J bmi diseaseTypes
            in and_then (resultData J r now bmi diseaseTypes calorieData) (\<lambda>doc.
               and_then (client_setEx r now cacheKey ttlSeconds (stringify J doc)) (\<lambda>r'.
                 Inr (True, this\<lparr>client := Some r'\<rparr>))))
       (\<lambda>error. Inr (False, this))"

text \<open>The value returned is \<open>null\<close> (\<open>Some JNull\<close>) on a miss and \<open>parsedData.result\<close> on a hit.\<close>

definition getCaloricResult ::
  "js_runtime \<Rightarrow> RedisClient \<Rightarrow> int \<Rightarrow> rat \<Rightarrow> js_value \<Rightarrow> error + js_value \<times> RedisClient" where
  "getCaloricResult J this now bmi diseaseTypes =
     try_catch
       (case connected_client this of
          None \<Rightarrow> Inr (Some JNull, this)
        | Some r \<Rightarrow>
            let cacheKey = getCaloricResult_cacheKey J bmi diseaseTypes
            in and_then (client_get r now cacheKey) (\<lambda>data.
                 if present data
                 then and_then (parse J (the data)) (\<lambda>parsedData.
                      and_then (get_property parsedData ''result'') (\<lambda>result.
                        Inr (result, this)))
                 else Inr (Some JNull, this)))
       (\<lambda>error. Inr (Some JNull, this))"

text \<open>What a \<open>GET\<close> of the key returns at the time \<open>now\<close>, if anything.\<close>

definition cached :: "RedisClient \<Rightarrow> int \<Rightarrow> string \<Rightarrow> string option" where
  "cached this now key = (case client this of None \<Rightarrow> None | Some r \<Rightarrow> live r now key)"

text \<open>The \<open>hitCount\<close> of the entry stored under a key, read the way the methods read an
  entry: the text is there, is not empty and parses.\<close>

definition stored_hitCount :: "js_runtime \<Rightarrow> RedisClient \<Rightarrow> int \<Rightarrow> string \<Rightarrow> js_value" where
  "stored_hitCount J this now key =
     (if present (cached this now key)
      then (case parse J (the (cached this now key)) of
              Inl e \<Rightarrow> None
            | Inr doc \<Rightarrow> (case get_property doc ''hitCount'' of Inl e \<Rightarrow> None | Inr v \<Rightarrow> v))
      else None)"

section \<open>Cache invalidation: \<open>middleware/cache.js\<close>\<close>

text \<open>\<open>s.replace(pat, rep)\<close> for a string pattern and a replacement without \<open>$\<close>: the first
  occurrence is replaced.\<close>

fun replace_first :: "string \<Rightarrow> string \<Rightarrow> string \<Rightarrow> string" where
  "replace_first [] pat rep = (if pat = [] then rep else [])"
| "replace_first (c # cs) pat rep =
     (if take (length pat) (c # cs) = pat then rep @ drop (length pat) (c # cs)
      else c # replace_first cs pat rep)"

definition keysToDelete :: "string \<Rightarrow> string list" where
  "keysToDelete userId =
     [''cache:'' @ userId @ '':/api/health/metrics'',
      ''cache:'' @ userId @ '':/api/health/diseases'',
      ''cache:'' @ userId @ '':/api/health/medications'',
      ''cache:'' @ userId @ '':/api/health/summary'',
      ''cache:'' @ userId @ '':/api/meals/daily'',
      ''cache:'' @ userId @ '':/api/meals/weekly'',
      ''cache:'' @ userId @ '':/api/ai/recommendations'']"

text \<open>The \<open>for (const key of keysToDelete)\<close> loop for one pattern.\<close>

fun delete_loop :: "RedisClient \<Rightarrow> int \<Rightarrow> string \<Rightarrow> string list \<Rightarrow> error + RedisClient" where
  "delete_loop this now needle [] = Inr this"
| "delete_loop this now needle (key # keys) =
     (if includes_str key needle
      then and_then (redisClient_del this now key) (\<lambda>(ok, this'). delete_loop this' now needle keys)
      else delete_loop this now needle keys)"

text \<open>The callback of \<open>patterns.forEach\<close>, with its own \<open>try\<close>/\<open>catch\<close>.\<close>

definition invalidate_pattern :: "RedisClient \<Rightarrow> int \<Rightarrow> string \<Rightarrow> string \<Rightarrow> RedisClient" where
  "invalidate_pattern this now userId pattern =
     (let fullPattern = replace_first pattern '':userId'' userId;
          needle = replace_first (replace_first fullPattern ''cache:'' []) '':userId:'' userId
      in case try_catch (delete_loop this now needle (keysToDelete userId)) (\<lambda>error. Inr this) of
           Inr this' \<Rightarrow> this'
         | Inl e \<Rightarrow> this)"

text \<open>
  \<open>invalidateAfterResponse\<close>: the invalidation step, run when the response is sent. The
  callbacks only delete keys, so the order in which they interleave does not matter; they
  are run one after the other.
\<close>

definition invalidateAfterResponse ::
  "string list \<Rightarrow> RedisClient \<Rightarrow> int \<Rightarrow> string \<Rightarrow> int \<Rightarrow> RedisClient" where
  "invalidateAfterResponse patterns this now userId statusCode =
     (if 200 \<le> statusCode \<and> statusCode < 300
      then foldl (\<lambda>this' pattern. invalidate_pattern this' now userId pattern) this patterns
      else this)"

text \<open>
  The middleware \<open>invalidateCache(patterns)\<close> for one request: \<open>userId\<close> is
  \<open>req.user?._id || req.user?.userId\<close>, \<open>statusCode\<close> the status of the response.
\<close>

definition invalidateCache ::
  "string list \<Rightarrow> RedisClient \<Rightarrow> int \<Rightarrow> string option \<Rightarrow> int \<Rightarrow> RedisClient" where
  "invalidateCache patterns this now userId statusCode =
     (if \<not> isConnected this then this
      else case userId of
             None \<Rightarrow> this
           | Some u \<Rightarrow> if u = [] then this
                       else invalidateAfterResponse patterns this now u statusCode)"

text \<open>\<open>healthCacheKey(dataType)\<close> applied to a request of the user.\<close>

definition healthCacheKey :: "string \<Rightarrow> string \<Rightarrow> string" where
  "healthCacheKey dataType userId = ''cache:health:'' @ userId @ '':'' @ dataType"

section \<open>An executable runtime\<close>

text \<open>
  An executable instance of the runtime, for running the model on concrete inputs. The
  printer writes compact JSON (without escapes in strings); a number is written as an
  integer, as a decimal ending in \<open>.5\<close>, or in thousandths. The parser recognises the texts
  of a given list of documents. A date is written as its number of milliseconds.
\<close>

definition show_int :: "int \<Rightarrow> string" where
  "show_int i = (if i < 0 then ''-'' @ show_nat (nat (- i)) else show_nat (nat i))"

definition show_rat :: "rat \<Rightarrow> string" where
  "show_rat q =
     (if of_int (floor q) = q then show_int (floor q)
      else if of_int (floor (2 * q)) = 2 * q
           then (if q < 0 then ''-'' else []) @ show_nat (nat (floor (abs q))) @ ''.5''
      else show_int (floor (q * 1000)) @ ''/1000'')"

fun show_json :: "json \<Rightarrow> string" where
  "show_json JNull = ''null''"
| "show_json (JBool b) = (if b then ''true'' else ''false'')"
| "show_json (JNum n) = show_rat n"
| "show_json (JStr s) = [CHR 0x22] @ s @ [CHR 0x22]"
| "show_json (JArr xs) = ''['' @ join '','' (map show_json xs) @ '']''"
| "show_json (JObj fs) =
     ''{'' @ join '','' (map (\<lambda>(k, v). [CHR 0x22] @ k @ [CHR 0x22] @ '':'' @ show_json v) fs) @ ''}''"

definition parse_known :: "json list \<Rightarrow> string \<Rightarrow> error + json" where
  "parse_known docs text =
     (case find (\<lambda>doc. show_json doc = text) docs of
        Some doc \<Rightarrow> Inr doc
      | None \<Rightarrow> Inl (Error ''Unexpected token''))"

definition demo_runtime :: "json list \<Rightarrow> js_runtime" where
  "demo_runtime docs =
     \<lparr>stringify = show_json,
      parse = parse_known docs,
      number_to_string = show_rat,
      toISOString =
        (\<lambda>ms. if abs ms \<le> 8640000000000000 then Inr (show_int ms)
              else Inl (Error ''Invalid time value''))\<rparr>"

definition demo_redis :: "(string \<times> string \<times> int) list \<Rightarrow> RedisClient" where
  "demo_redis entries = \<lparr>client = Some \<lparr>db = map_of entries, unavailable = False\<rparr>, isConnected = True\<rparr>"

text \<open>A client whose server holds data while its \<open>isConnected\<close> flag is false.\<close>

definition demo_disconnected :: RedisClient where
  "demo_disconnected = (demo_redis [(''healthData:u1'', ''{}'', 5000)])\<lparr>isConnected := False\<rparr>"

text \<open>Inputs for running the calorie and health-data methods.\<close>

definition demo_conditions :: "json list" where
  "demo_conditions = [JStr ''diabetes'', JStr ''asthma'']"

definition demo_sorted_conditions :: "json list" where
  "demo_sorted_conditions = [JStr ''asthma'', JStr ''diabetes'']"

definition demo_recommendation :: json where
  "demo_recommendation = JObj [(''calories'', JNum 2000)]"

definition demo_entry :: "string \<Rightarrow> rat \<Rightarrow> json" where
  "demo_entry cachedAt hits =
     JObj [(''bmiRange'', JNum 22.5), (''diseases'', JArr demo_sorted_conditions),
           (''result'', demo_recommendation), (''cachedAt'', JStr cachedAt),
           (''hitCount'', JNum hits)]"

definition demo_calorie_runtime :: js_runtime where
  "demo_calorie_runtime = demo_runtime [demo_entry ''1000'' 1, demo_entry ''2000'' 2]"

definition demo_calorie_cache :: RedisClient where
  "demo_calorie_cache =
     demo_redis [(''calorie:22.5:asthma,diabetes'', show_json (demo_entry ''1000'' 1), 7201000)]"





text \<open>Two users, and a cache holding entries of both.\<close>

definition demo_user :: string where
  "demo_user = ''507f1f77bcf86cd799439011''"

definition demo_other_user :: string where
  "demo_other_user = ''507f191e810c19729de860ea''"

definition demo_health_cache :: RedisClient where
  "demo_health_cache =
     demo_redis
       [(''healthData:'' @ demo_user, ''profile'', 1801000),
        (healthCacheKey ''metrics'' demo_user, ''metrics'', 3601000),
        (''cache:'' @ demo_user @ '':/api/health/metrics'', ''generic'', 3601000),
        (''cache:'' @ demo_user @ '':/api/meals/daily'', ''meals'', 3601000),
        (''healthData:'' @ demo_other_user, ''other profile'', 1801000)]"

section \<open>Verification: password strength and the credential cipher\<close>








lemma common_loop_flag:
  "noCommonPatterns (criteria (common_pattern_loop pats p r)) =
     (if list_ex (includes_str (toLowerCase p)) pats then False else noCommonPatterns (criteria r))"
  by (induction pats) auto








lemma byte_of_nibbles: "(of_nat (16 * (unat w div 16) + unat w mod 16) :: byte) = w"
  by simp








lemma and_then_InrE:
  assumes "and_then r f = Inr v"
  obtains x where "r = Inr x" and "f x = Inr v"
  using assms by (cases r) (simp_all add: and_then_def)

lemma try_catch_Inr: "try_catch body h = Inr v \<Longrightarrow> (\<forall>e. h e \<noteq> Inr v) \<Longrightarrow> body = Inr v"
  by (cases body) (simp_all add: try_catch_def)












text \<open>
  C2. \<open>comparePassword\<close> never propagates an exception: for every candidate and every
  envelope text it returns a boolean, and whenever a step of its \<open>try\<close> block throws
  (the key derivation, the creation of the decipher on a short envelope, the decryption
  or its padding check) the boolean is false.
\<close>

theorem comparePassword_never_throws:
  "(\<exists>b. comparePassword N candidate envelope = Inr b)
   \<and> (\<forall>e. comparePassword_body N candidate envelope = Inl e \<longrightarrow>
          comparePassword N candidate envelope = Inr False)"
  by (cases "comparePassword_body N candidate envelope")
     (auto simp: comparePassword_def try_catch_def)

lemma demo_short_envelope:
  "comparePassword_body demo_api ''Abcdef1!'' ''0102'' = Inl (Error ''Invalid initialization vector'')"
  by (simp add: comparePassword_body_def demo_api_def hex_value_def is_digit_def slice_def
      saltLength_def ivLength_def deriveKey_def demo_pbkdf2_def iterations_def keyLength_def
      hashAlgorithm_def utf8_bytes_def and_then_def demo_create_def algorithm_def)

theorem comparePassword_never_throws_witness:
  "comparePassword_body demo_api ''Abcdef1!'' ''0102'' = Inl (Error ''Invalid initialization vector'')
   \<and> comparePassword demo_api ''Abcdef1!'' ''0102'' = Inr False"
  using comparePassword_never_throws[of demo_api "''Abcdef1!''" "''0102''"] demo_short_envelope
  by simp




section \<open>Verification: the cache backend\<close>


lemma connected_client_None:
  "\<not> isConnected this \<or> client this = None \<Longrightarrow> connected_client this = None"
  by (auto simp: connected_client_def)

text \<open>
  C3. Fail-open: when the connected flag is false or the client is null, every operation of
  the cache backend returns its empty value without throwing and leaves the client as it
  was: \<open>get\<close> null, \<open>set\<close>, \<open>del\<close>, \<open>exists\<close> and \<open>mset\<close> false, \<open>mget\<close> the empty list; and so
  do the session, health-data and calorie-result methods (null or false).
\<close>

theorem fail_open:
  assumes "\<not> isConnected this \<or> client this = None"
  shows "redisClient_get J this now key = Inr (JNull, this)
       \<and> redisClient_set J this now key data ttl = Inr (False, this)
       \<and> redisClient_del this now key = Inr (False, this)
       \<and> redisClient_exists this now key = Inr (False, this)
       \<and> redisClient_mget J this now keys = Inr ([], this)
       \<and> redisClient_mset J this now pairs ttl = Inr (False, this)
       \<and> getSession this now userId = Inr (None, this)
       \<and> setSession this now userId token ttl = Inr (False, this)
       \<and> deleteSession this now userId = Inr (False, this)
       \<and> getHealthData J this now userId = Inr (JNull, this)
       \<and> setHealthData J this now userId data ttl = Inr (False, this)
       \<and> getCaloricResult J this now bmi diseaseTypes = Inr (Some JNull, this)
       \<and> setCaloricResult J this now bmi diseaseTypes data ttl = Inr (False, this)"
proof -
  have c: "connected_client this = None"
    using assms by (rule connected_client_None)
  have 1: "redisClient_get J this now key = Inr (JNull, this)"
    by (simp add: redisClient_get_def c try_catch_def)
  have 2: "redisClient_set J this now key data ttl = Inr (False, this)"
    by (simp add: redisClient_set_def c try_catch_def)
  have 3: "redisClient_del this now key = Inr (False, this)"
    by (simp add: redisClient_del_def c try_catch_def)
  have 4: "redisClient_exists this now key = Inr (False, this)"
    by (simp add: redisClient_exists_def c try_catch_def)
  have 5: "redisClient_mget J this now keys = Inr ([], this)"
    by (simp add: redisClient_mget_def c try_catch_def)
  have 6: "redisClient_mset J this now pairs ttl = Inr (False, this)"
    by (simp add: redisClient_mset_def c try_catch_def)
  have 7: "getSession this now userId = Inr (None, this)"
    by (simp add: getSession_def c try_catch_def)
  have 8: "setSession this now userId token ttl = Inr (False, this)"
    by (simp add: setSession_def c try_catch_def)
  have 9: "deleteSession this now userId = Inr (False, this)"
    by (simp add: deleteSession_def c try_catch_def)
  have 10: "getHealthData J this now userId = Inr (JNull, this)"
    by (simp add: getHealthData_def c try_catch_def)
  have 11: "setHealthData J this now userId data ttl = Inr (False, this)"
    by (simp add: setHealthData_def c try_catch_def)
  have 12: "getCaloricResult J this now bmi diseaseTypes = Inr (Some JNull, this)"
    by (simp add: getCaloricResult_def c try_catch_def)
  have 13: "setCaloricResult J this now bmi diseaseTypes data ttl = Inr (False, this)"
    by (simp add: setCaloricResult_def c try_catch_def)
  from 1 2 3 4 5 6 7 8 9 10 11 12 13 show ?thesis by blast
qed

lemma demo_disconnected_flag: "\<not> isConnected demo_disconnected \<or> client demo_disconnected = None"
  by (simp add: demo_disconnected_def)

theorem fail_open_witness:
  "cached demo_disconnected 1000 ''healthData:u1'' = Some ''{}''
   \<and> redisClient_get (demo_runtime []) demo_disconnected 1000 ''healthData:u1'' = Inr (JNull, demo_disconnected)
   \<and> redisClient_set (demo_runtime []) demo_disconnected 1000 ''healthData:u1'' JNull 60 = Inr (False, demo_disconnected)
   \<and> redisClient_del demo_disconnected 1000 ''healthData:u1'' = Inr (False, demo_disconnected)
   \<and> redisClient_exists demo_disconnected 1000 ''healthData:u1'' = Inr (False, demo_disconnected)
   \<and> redisClient_mget (demo_runtime []) demo_disconnected 1000 [''healthData:u1''] = Inr ([], demo_disconnected)
   \<and> redisClient_mset (demo_runtime []) demo_disconnected 1000 [(''healthData:u1'', JNull)] 60 = Inr (False, demo_disconnected)
   \<and> getSession demo_disconnected 1000 ''u1'' = Inr (None, demo_disconnected)
   \<and> setSession demo_disconnected 1000 ''u1'' ''token'' 60 = Inr (False, demo_disconnected)
   \<and> deleteSession demo_disconnected 1000 ''u1'' = Inr (False, demo_disconnected)
   \<and> getHealthData (demo_runtime []) demo_disconnected 1000 ''u1'' = Inr (JNull, demo_disconnected)
   \<and> setHealthData (demo_runtime []) demo_disconnected 1000 ''u1'' JNull 60 = Inr (False, demo_disconnected)
   \<and> getCaloricResult (demo_runtime []) demo_disconnected 1000 24.9 None = Inr (Some JNull, demo_disconnected)
   \<and> setCaloricResult (demo_runtime []) demo_disconnected 1000 24.9 None JNull 60 = Inr (False, demo_disconnected)"
proof -
  have "cached demo_disconnected 1000 ''healthData:u1'' = Some ''{}''"
    by (simp add: cached_def demo_disconnected_def demo_redis_def live_def)
  then show ?thesis
    using fail_open[OF demo_disconnected_flag] by blast
qed



lemma and_then_simps [simp]:
  "and_then (Inr x) f = f x"
  "and_then (Inl e) f = Inl e"
  by (simp_all add: and_then_def)

lemma try_catch_simps [simp]:
  "try_catch (Inr x) h = Inr x"
  "try_catch (Inl e) h = h e"
  by (simp_all add: try_catch_def)

lemma client_setEx_InrD:
  assumes "client_setEx r now key seconds text = Inr r'"
  shows "\<not> unavailable r" and "0 < seconds"
    and "r' = r\<lparr>db := (db r)(key \<mapsto> (text, now + seconds * 1000))\<rparr>"
  using assms by (auto simp: client_setEx_def split: if_splits)

lemma live_after_setEx:
  assumes "client_setEx r now key seconds text = Inr r'" and "now' < now + seconds * 1000"
  shows "live r' now' key = Some text"
  using assms by (auto simp: client_setEx_def live_def split: if_splits)

lemma client_get_after_setEx:
  assumes "client_setEx r now key seconds text = Inr r'" and "now' < now + seconds * 1000"
  shows "client_get r' now' key = Inr (Some text)"
  using live_after_setEx[OF assms] client_setEx_InrD[OF assms(1)]
  by (simp add: client_get_def)

lemma connected_client_SomeD:
  "connected_client this = Some r \<Longrightarrow> isConnected this \<and> client this = Some r"
  by (auto simp: connected_client_def split: if_splits)

lemma connected_client_update:
  "connected_client this = Some r \<Longrightarrow> connected_client (this\<lparr>client := Some r'\<rparr>) = Some r'"
  by (auto simp: connected_client_def split: if_splits)

lemma setCaloricResult_TrueD:
  assumes "setCaloricResult J this now bmi d v ttl = Inr (True, this')"
    and "connected_client this = Some r"
  shows "\<exists>doc r'. resultData J r now bmi d v = Inr doc
            \<and> client_setEx r now (setCaloricResult_cacheKey J bmi d) ttl (stringify J doc) = Inr r'
            \<and> this' = this\<lparr>client := Some r'\<rparr>"
proof -
  from assms(1) have body:
    "and_then (resultData J r now bmi d v) (\<lambda>doc.
       and_then (client_setEx r now (setCaloricResult_cacheKey J bmi d) ttl (stringify J doc)) (\<lambda>r'.
         Inr (True, this\<lparr>client := Some r'\<rparr>))) = Inr (True, this')"
    unfolding setCaloricResult_def using assms(2)
    by (auto dest!: try_catch_Inr simp: Let_def)
  then show ?thesis
    by (elim and_then_InrE) auto
qed

lemma resultData_result:
  assumes "resultData J r now bmi d v = Inr doc"
  shows "get_property doc ''result'' = Inr (Some v)"
proof -
  from assms obtain cachedAt hitCount fs where
    doc: "doc = JObj ([(''bmiRange'', JNum (of_int (floor (bmi / 2.5)) * 2.5))] @ fs @
                 [(''result'', v), (''cachedAt'', JStr cachedAt), (''hitCount'', hitCount)])"
    and fs: "fs = [] \<or> (\<exists>x. fs = [(''diseases'', x)])"
    unfolding resultData_def Let_def
    by (elim and_then_InrE) (auto split: option.splits json.splits)
  from fs show ?thesis
    by (auto simp: doc get_property_def)
qed

lemma getCaloricResult_hit:
  assumes conn: "connected_client this = Some r"
    and reply: "client_get r now (getCaloricResult_cacheKey J bmi d) = Inr (Some text)"
    and ne: "text \<noteq> []"
    and parsed: "parse J text = Inr doc"
    and field: "get_property doc ''result'' = Inr res"
  shows "getCaloricResult J this now bmi d = Inr (res, this)"
  by (simp add: getCaloricResult_def conn Let_def reply present_def ne parsed field)

lemma bucket_examples:
  "of_int (floor ((24.9 :: rat) / 2.5)) * (2.5 :: rat) = 22.5"
  "of_int (floor ((23.1 :: rat) / 2.5)) * (2.5 :: rat) = 22.5"
  by (simp_all add: floor_eq_iff)

lemma floor_rat_numeral: "floor ((numeral a :: rat) / numeral b) = numeral a div numeral b"
  by (metis floor_divide_of_int_eq of_int_numeral)

lemma show_rat_examples:
  "show_rat 22.5 = ''22.5''"
  "show_rat (45 / 2) = ''22.5''"
  "show_rat 2000 = ''2000''"
  "show_rat 1 = ''1''"
  "show_rat 2 = ''2''"
  by (simp_all add: show_rat_def show_int_def show_nat.simps floor_rat_numeral)

lemma show_int_examples:
  "show_int 1000 = ''1000''"
  "show_int 2000 = ''2000''"
  "show_int 1801000 = ''1801000''"
  by (simp_all add: show_int_def show_nat.simps)

text \<open>
  C4. Bucketing collision: two BMI values with the same bucket \<open>floor(bmi / 2.5) * 2.5\<close> (as
  24.9 and 23.1, both in bucket 22.5) and condition lists with the same sorted order give
  the same cache key in \<open>setCaloricResult\<close> and \<open>getCaloricResult\<close>; so when a
  \<open>setCaloricResult\<close> for the one has succeeded on a connected backend, a
  \<open>getCaloricResult\<close> for the other before the expiry returns the value stored. Neither
  method takes the identity of a user. The text stored is assumed to be read back by
  \<open>JSON.parse\<close> as the object written.
\<close>

theorem bucketing_collision:
  assumes conn: "connected_client this = Some r"
    and bucket: "of_int (floor (b1 / 2.5)) * (2.5 :: rat) = of_int (floor (b2 / 2.5)) * 2.5"
    and conds: "array_sort J xs = array_sort J ys"
    and stored: "setCaloricResult J this now b1 (Some (JArr xs)) v ttl = Inr (True, this')"
    and doc: "resultData J r now b1 (Some (JArr xs)) v = Inr doc"
    and nonempty: "stringify J doc \<noteq> []"
    and codec: "parse J (stringify J doc) = Inr doc"
    and time: "now' < now + ttl * 1000"
  shows "setCaloricResult_cacheKey J b1 (Some (JArr xs)) = getCaloricResult_cacheKey J b2 (Some (JArr ys))
       \<and> getCaloricResult J this' now' b2 (Some (JArr ys)) = Inr (Some v, this')
       \<and> of_int (floor ((24.9 :: rat) / 2.5)) * (2.5 :: rat) = 22.5
       \<and> of_int (floor ((23.1 :: rat) / 2.5)) * (2.5 :: rat) = 22.5"
proof -
  have keys: "setCaloricResult_cacheKey J b1 (Some (JArr xs)) =
      getCaloricResult_cacheKey J b2 (Some (JArr ys))"
    by (simp only: setCaloricResult_cacheKey_def getCaloricResult_cacheKey_def Let_def bucket conds
        option.case json.case)
  from setCaloricResult_TrueD[OF stored conn] doc obtain r' where
    setex: "client_setEx r now (setCaloricResult_cacheKey J b1 (Some (JArr xs))) ttl (stringify J doc) = Inr r'"
    and this': "this' = this\<lparr>client := Some r'\<rparr>"
    by auto
  have conn': "connected_client this' = Some r'"
    unfolding this' using conn by (rule connected_client_update)
  have got: "client_get r' now' (getCaloricResult_cacheKey J b2 (Some (JArr ys))) = Inr (Some (stringify J doc))"
    using client_get_after_setEx[OF setex time] keys by simp
  have hit: "getCaloricResult J this' now' b2 (Some (JArr ys)) = Inr (Some v, this')"
    by (rule getCaloricResult_hit[OF conn' got nonempty codec resultData_result[OF doc]])
  show ?thesis
    by (intro conjI) (rule keys, rule hit, rule bucket_examples(1), rule bucket_examples(2))
qed


lemma resultData_available:
  assumes "resultData J r now bmi d v = Inr doc"
  shows "\<not> unavailable r"
  using assms unfolding resultData_def Let_def
  by (elim and_then_InrE) (auto simp: client_get_def split: if_splits)

lemma setCaloricResult_succeeds:
  assumes conn: "connected_client this = Some r"
    and doc: "resultData J r now bmi d v = Inr doc"
    and ttl: "0 < ttl"
  shows "\<exists>this'. setCaloricResult J this now bmi d v ttl = Inr (True, this')"
  using resultData_available[OF doc] ttl
  by (simp add: setCaloricResult_def conn doc Let_def client_setEx_def)

lemma demo_redis_connected:
  "connected_client (demo_redis entries) = Some \<lparr>db = map_of entries, unavailable = False\<rparr>"
  by (simp add: connected_client_def demo_redis_def)

lemma demo_keys:
  "setCaloricResult_cacheKey demo_calorie_runtime 24.9 (Some (JArr demo_conditions)) =
     ''calorie:22.5:asthma,diabetes''"
  "setCaloricResult_cacheKey demo_calorie_runtime 23.1 (Some (JArr demo_sorted_conditions)) =
     ''calorie:22.5:asthma,diabetes''"
  "getCaloricResult_cacheKey demo_calorie_runtime 23.1 (Some (JArr demo_sorted_conditions)) =
     ''calorie:22.5:asthma,diabetes''"
  by (simp only: setCaloricResult_cacheKey_def getCaloricResult_cacheKey_def Let_def
        bucket_examples,
      simp add: demo_calorie_runtime_def demo_runtime_def show_rat_examples array_join_def
        array_sort_def demo_conditions_def demo_sorted_conditions_def)+

lemma demo_first_write:
  "resultData demo_calorie_runtime \<lparr>db = map_of [], unavailable = False\<rparr> 1000 24.9
     (Some (JArr demo_conditions)) demo_recommendation = Inr (demo_entry ''1000'' 1)"
  by (simp only: resultData_def Let_def bucket_examples demo_keys,
      simp add: demo_calorie_runtime_def demo_runtime_def show_int_examples client_get_def
        live_def present_def array_sort_def demo_conditions_def demo_entry_def
        demo_sorted_conditions_def)

lemma demo_entry_codec:
  "stringify demo_calorie_runtime (demo_entry ''1000'' 1) \<noteq> []"
  "parse demo_calorie_runtime (stringify demo_calorie_runtime (demo_entry ''1000'' 1)) =
     Inr (demo_entry ''1000'' 1)"
  "stringify demo_calorie_runtime (demo_entry ''2000'' 2) \<noteq> []"
  "parse demo_calorie_runtime (stringify demo_calorie_runtime (demo_entry ''2000'' 2)) =
     Inr (demo_entry ''2000'' 2)"
  by (simp_all add: demo_calorie_runtime_def demo_runtime_def parse_known_def demo_entry_def
      show_rat_examples demo_sorted_conditions_def demo_recommendation_def)

lemma demo_sorted:
  "array_sort demo_calorie_runtime demo_conditions =
   array_sort demo_calorie_runtime demo_sorted_conditions"
  by (simp add: array_sort_def demo_conditions_def demo_sorted_conditions_def)

theorem bucketing_collision_witness:
  "\<exists>this'. setCaloricResult demo_calorie_runtime (demo_redis []) 1000 24.9
              (Some (JArr demo_conditions)) demo_recommendation 7200 = Inr (True, this')
         \<and> getCaloricResult demo_calorie_runtime this' 2000 23.1
              (Some (JArr demo_sorted_conditions)) = Inr (Some demo_recommendation, this')"
proof -
  have bucket: "of_int (floor ((24.9 :: rat) / 2.5)) * (2.5 :: rat) =
      of_int (floor ((23.1 :: rat) / 2.5)) * (2.5 :: rat)"
    by (simp only: bucket_examples)
  have "\<exists>this'. setCaloricResult demo_calorie_runtime (demo_redis []) 1000 24.9
      (Some (JArr demo_conditions)) demo_recommendation 7200 = Inr (True, this')"
    by (rule setCaloricResult_succeeds[OF demo_redis_connected demo_first_write]) simp
  then obtain this' where stored: "setCaloricResult demo_calorie_runtime (demo_redis []) 1000 24.9
      (Some (JArr demo_conditions)) demo_recommendation 7200 = Inr (True, this')"
    by blast
  have time: "(2000 :: int) < 1000 + 7200 * 1000" by simp
  from bucketing_collision[OF demo_redis_connected bucket demo_sorted stored demo_first_write
      demo_entry_codec(1) demo_entry_codec(2) time]
  have "getCaloricResult demo_calorie_runtime this' 2000 23.1
      (Some (JArr demo_sorted_conditions)) = Inr (Some demo_recommendation, this')"
    by blast
  with stored show ?thesis by blast
qed


lemma getCaloricResult_unchanged:
  "\<exists>res. getCaloricResult J this now bmi d = Inr (res, this)"
proof (cases "connected_client this")
  case None
  then show ?thesis by (simp add: getCaloricResult_def)
next
  case (Some r)
  show ?thesis
  proof (cases "and_then (client_get r now (getCaloricResult_cacheKey J bmi d)) (\<lambda>data.
                 if present data
                 then and_then (parse J (the data)) (\<lambda>parsedData.
                      and_then (get_property parsedData ''result'') (\<lambda>result.
                        Inr (result, this)))
                 else Inr (Some JNull, this))")
    case (Inl e)
    then show ?thesis by (simp add: getCaloricResult_def Some Let_def)
  next
    case (Inr p)
    then have "snd p = this"
      by (elim and_then_InrE) (auto split: if_splits elim!: and_then_InrE)
    with Inr show ?thesis
      by (cases p) (simp add: getCaloricResult_def Some Let_def)
  qed
qed

lemma resultData_hitCount:
  assumes doc: "resultData J r now bmi d v = Inr doc"
    and conn: "connected_client this = Some r"
  shows "cached this now (setCaloricResult_cacheKey J bmi d) = None \<Longrightarrow>
           get_property doc ''hitCount'' = Inr (Some (JNum 1))"
    and "stored_hitCount J this now (setCaloricResult_cacheKey J bmi d) = Some (JNum n) \<Longrightarrow>
           get_property doc ''hitCount'' = Inr (Some (JNum (n + 1)))"
proof -
  have cl: "client this = Some r"
    using connected_client_SomeD[OF conn] by simp
  from doc obtain cachedAt existing hitCount fs where
    d: "doc = JObj ([(''bmiRange'', JNum (of_int (floor (bmi / 2.5)) * 2.5))] @ fs @
                 [(''result'', v), (''cachedAt'', JStr cachedAt), (''hitCount'', hitCount)])"
    and fs: "fs = [] \<or> (\<exists>x. fs = [(''diseases'', x)])"
    and ex: "client_get r now (setCaloricResult_cacheKey J bmi d) = Inr existing"
    and h: "(if present existing
            then and_then (parse J (the existing)) (\<lambda>existingData.
                 and_then (get_property existingData ''hitCount'') (\<lambda>count.
                   Inr (or_zero_plus_one J count)))
            else Inr (JNum 1)) = Inr hitCount"
    unfolding resultData_def Let_def
    by (elim and_then_InrE) (auto split: option.splits json.splits)
  from ex have existing: "existing = cached this now (setCaloricResult_cacheKey J bmi d)"
    by (auto simp: client_get_def cached_def cl split: if_splits)
  from fs have hc: "get_property doc ''hitCount'' = Inr (Some hitCount)"
    by (auto simp: d get_property_def)
  show "cached this now (setCaloricResult_cacheKey J bmi d) = None \<Longrightarrow>
           get_property doc ''hitCount'' = Inr (Some (JNum 1))"
    using h hc by (simp add: existing present_def)
  show "stored_hitCount J this now (setCaloricResult_cacheKey J bmi d) = Some (JNum n) \<Longrightarrow>
           get_property doc ''hitCount'' = Inr (Some (JNum (n + 1)))"
    using h hc unfolding stored_hitCount_def existing[symmetric]
    by (auto simp: or_zero_plus_one_def split: if_splits sum.splits)
qed

lemma stored_hitCount_after_write:
  assumes conn: "connected_client this = Some r"
    and stored: "setCaloricResult J this now bmi d v ttl = Inr (True, this')"
    and doc: "resultData J r now bmi d v = Inr doc"
    and nonempty: "stringify J doc \<noteq> []"
    and codec: "parse J (stringify J doc) = Inr doc"
    and time: "now' < now + ttl * 1000"
    and hits: "get_property doc ''hitCount'' = Inr h"
  shows "stored_hitCount J this' now' (setCaloricResult_cacheKey J bmi d) = h"
proof -
  from setCaloricResult_TrueD[OF stored conn] doc obtain r' where
    setex: "client_setEx r now (setCaloricResult_cacheKey J bmi d) ttl (stringify J doc) = Inr r'"
    and this': "this' = this\<lparr>client := Some r'\<rparr>"
    by auto
  have "cached this' now' (setCaloricResult_cacheKey J bmi d) = Some (stringify J doc)"
    using live_after_setEx[OF setex time] by (simp add: cached_def this')
  then show ?thesis
    by (simp add: stored_hitCount_def present_def nonempty codec hits)
qed

lemma demo_calorie_cache_connected:
  "connected_client demo_calorie_cache =
     Some \<lparr>db = map_of [(''calorie:22.5:asthma,diabetes'', show_json (demo_entry ''1000'' 1), 7201000)],
           unavailable = False\<rparr>"
  by (simp add: demo_calorie_cache_def demo_redis_connected)

lemma demo_stored_text:
  "cached demo_calorie_cache 2000 ''calorie:22.5:asthma,diabetes'' =
     Some (stringify demo_calorie_runtime (demo_entry ''1000'' 1))"
  by (simp add: cached_def demo_calorie_cache_def demo_redis_def live_def demo_calorie_runtime_def
      demo_runtime_def)

lemma demo_hits_before:
  "stored_hitCount demo_calorie_runtime demo_calorie_cache 2000 ''calorie:22.5:asthma,diabetes''
     = Some (JNum 1)"
  by (simp add: stored_hitCount_def demo_stored_text present_def demo_entry_codec(1,2))
     (simp add: demo_entry_def get_property_def)

lemma demo_second_write:
  "resultData demo_calorie_runtime
     \<lparr>db = map_of [(''calorie:22.5:asthma,diabetes'', show_json (demo_entry ''1000'' 1), 7201000)],
      unavailable = False\<rparr> 2000 23.1
     (Some (JArr demo_sorted_conditions)) demo_recommendation = Inr (demo_entry ''2000'' 2)"
proof -
  have existing: "client_get
      \<lparr>db = map_of [(''calorie:22.5:asthma,diabetes'', show_json (demo_entry ''1000'' 1), 7201000)],
       unavailable = False\<rparr> 2000 ''calorie:22.5:asthma,diabetes'' =
      Inr (Some (stringify demo_calorie_runtime (demo_entry ''1000'' 1)))"
    by (simp add: client_get_def live_def demo_calorie_runtime_def demo_runtime_def)
  have count: "get_property (demo_entry ''1000'' 1) ''hitCount'' = Inr (Some (JNum 1))"
    by (simp add: demo_entry_def get_property_def)
  have stamp: "toISOString demo_calorie_runtime 2000 = Inr ''2000''"
    by (simp add: demo_calorie_runtime_def demo_runtime_def show_int_examples)
  show ?thesis
    by (simp only: resultData_def Let_def bucket_examples demo_keys existing stamp,
        simp add: present_def demo_entry_codec(1,2) count or_zero_plus_one_def,
        simp add: demo_entry_def array_sort_def demo_sorted_conditions_def)
qed

text \<open>
  C7 (as the claim states it, refuted). The entry under the key has \<open>hitCount\<close> 1; a
  \<open>getCaloricResult\<close> that finds it returns its result and the client unchanged, and the
  stored \<open>hitCount\<close> is still 1.
\<close>

theorem hitCount_read_counterexample:
  "getCaloricResult demo_calorie_runtime demo_calorie_cache 2000 23.1
     (Some (JArr demo_sorted_conditions)) = Inr (Some demo_recommendation, demo_calorie_cache)
   \<and> stored_hitCount demo_calorie_runtime demo_calorie_cache 2000 ''calorie:22.5:asthma,diabetes''
       = Some (JNum 1)"
proof -
  have reply: "client_get
      \<lparr>db = map_of [(''calorie:22.5:asthma,diabetes'', show_json (demo_entry ''1000'' 1), 7201000)],
       unavailable = False\<rparr> 2000
      (getCaloricResult_cacheKey demo_calorie_runtime 23.1 (Some (JArr demo_sorted_conditions))) =
      Inr (Some (stringify demo_calorie_runtime (demo_entry ''1000'' 1)))"
    by (simp only: demo_keys)
       (simp add: client_get_def live_def demo_calorie_runtime_def demo_runtime_def)
  have field: "get_property (demo_entry ''1000'' 1) ''result'' = Inr (Some demo_recommendation)"
    by (simp add: demo_entry_def get_property_def)
  show ?thesis
    using getCaloricResult_hit[OF demo_calorie_cache_connected reply demo_entry_codec(1)
        demo_entry_codec(2) field] demo_hits_before
    by simp
qed

text \<open>
  C7 (amended). Hit-count on write: a \<open>getCaloricResult\<close> returns the client as it was given
  and so leaves the stored entry and its \<open>hitCount\<close> unchanged. A \<open>setCaloricResult\<close> that
  succeeds on a connected backend stores \<open>hitCount\<close> 1 when the bucketed key is absent and
  \<open>hitCount\<close> \<open>n + 1\<close> when it finds the key present with \<open>hitCount\<close> \<open>n\<close> (read, then
  increment). The text stored is assumed to be read back by \<open>JSON.parse\<close> as the object
  written.
\<close>

theorem hitCount_increments_on_write:
  assumes conn: "connected_client this = Some r"
    and stored: "setCaloricResult J this now bmi d v ttl = Inr (True, this')"
    and doc: "resultData J r now bmi d v = Inr doc"
    and nonempty: "stringify J doc \<noteq> []"
    and codec: "parse J (stringify J doc) = Inr doc"
    and time: "now' < now + ttl * 1000"
  shows "(\<exists>res. getCaloricResult J this now bmi d = Inr (res, this))
       \<and> (cached this now (setCaloricResult_cacheKey J bmi d) = None \<longrightarrow>
            stored_hitCount J this' now' (setCaloricResult_cacheKey J bmi d) = Some (JNum 1))
       \<and> (\<forall>n. stored_hitCount J this now (setCaloricResult_cacheKey J bmi d) = Some (JNum n) \<longrightarrow>
            stored_hitCount J this' now' (setCaloricResult_cacheKey J bmi d) = Some (JNum (n + 1)))"
  using getCaloricResult_unchanged[of J this now bmi d]
    resultData_hitCount[OF doc conn]
    stored_hitCount_after_write[OF conn stored doc nonempty codec time]
  by metis

theorem hitCount_increments_on_write_witness:
  "\<exists>this'. setCaloricResult demo_calorie_runtime demo_calorie_cache 2000 23.1
              (Some (JArr demo_sorted_conditions)) demo_recommendation 7200 = Inr (True, this')
         \<and> stored_hitCount demo_calorie_runtime demo_calorie_cache 2000
              ''calorie:22.5:asthma,diabetes'' = Some (JNum 1)
         \<and> stored_hitCount demo_calorie_runtime this' 3000
              ''calorie:22.5:asthma,diabetes'' = Some (JNum 2)"
proof -
  have "\<exists>this'. setCaloricResult demo_calorie_runtime demo_calorie_cache 2000 23.1
      (Some (JArr demo_sorted_conditions)) demo_recommendation 7200 = Inr (True, this')"
    by (rule setCaloricResult_succeeds[OF demo_calorie_cache_connected demo_second_write]) simp
  then obtain this' where stored: "setCaloricResult demo_calorie_runtime demo_calorie_cache 2000 23.1
      (Some (JArr demo_sorted_conditions)) demo_recommendation 7200 = Inr (True, this')"
    by blast
  have time: "(3000 :: int) < 2000 + 7200 * 1000" by simp
  from hitCount_increments_on_write[OF demo_calorie_cache_connected stored demo_second_write
      demo_entry_codec(3) demo_entry_codec(4) time]
  have "stored_hitCount demo_calorie_runtime this' 3000 ''calorie:22.5:asthma,diabetes''
      = Some (JNum (1 + 1))"
    using demo_hits_before by (simp add: demo_keys)
  with stored demo_hits_before show ?thesis by auto
qed


section \<open>Verification: health data and cache keys\<close>


subsection \<open>Health data\<close>












subsection \<open>Cache keys\<close>

text \<open>
  C10 (as the claim states it, refuted). The condition list \<open>["none"]\<close> is an array, and its
  key ends in the segment \<open>none\<close>, as the key of \<open>undefined\<close> does.
\<close>

theorem none_segment_counterexample:
  "setCaloricResult_cacheKey demo_calorie_runtime 24.9 (Some (JArr [JStr ''none''])) =
     ''calorie:22.5:none''
   \<and> setCaloricResult_cacheKey demo_calorie_runtime 24.9 None = ''calorie:22.5:none''"
  by (simp only: setCaloricResult_cacheKey_def Let_def bucket_examples,
      simp add: demo_calorie_runtime_def demo_runtime_def show_rat_examples array_join_def
        array_sort_def)

text \<open>
  C10 (amended). Memoized-key agreement and empty-set edge: for every BMI and every
  conditions argument \<open>setCaloricResult\<close> and \<open>getCaloricResult\<close> compute the same key; for
  the empty array the condition segment is empty (key \<open>calorie:<bucket>:\<close>); for each
  non-array falsy value (\<open>undefined\<close>, \<open>null\<close>, \<open>false\<close>, \<open>0\<close>, the empty string) it is
  \<open>none\<close>; and an array has the segment \<open>none\<close> exactly when its sorted elements joined by
  commas spell \<open>none\<close>.
\<close>

theorem caloric_keys_agree:
  "setCaloricResult_cacheKey J bmi d = getCaloricResult_cacheKey J bmi d
   \<and> setCaloricResult_cacheKey J bmi (Some (JArr [])) =
       ''calorie:'' @ number_to_string J (of_int (floor (bmi / 2.5)) * 2.5) @ '':''
   \<and> setCaloricResult_cacheKey J bmi None =
       ''calorie:'' @ number_to_string J (of_int (floor (bmi / 2.5)) * 2.5) @ '':none''
   \<and> setCaloricResult_cacheKey J bmi (Some JNull) =
       ''calorie:'' @ number_to_string J (of_int (floor (bmi / 2.5)) * 2.5) @ '':none''
   \<and> setCaloricResult_cacheKey J bmi (Some (JBool False)) =
       ''calorie:'' @ number_to_string J (of_int (floor (bmi / 2.5)) * 2.5) @ '':none''
   \<and> setCaloricResult_cacheKey J bmi (Some (JNum 0)) =
       ''calorie:'' @ number_to_string J (of_int (floor (bmi / 2.5)) * 2.5) @ '':none''
   \<and> setCaloricResult_cacheKey J bmi (Some (JStr [])) =
       ''calorie:'' @ number_to_string J (of_int (floor (bmi / 2.5)) * 2.5) @ '':none''
   \<and> (\<forall>xs. (setCaloricResult_cacheKey J bmi (Some (JArr xs)) =
              ''calorie:'' @ number_to_string J (of_int (floor (bmi / 2.5)) * 2.5) @ '':none'')
           = (array_join J (array_sort J xs) = ''none''))"
proof -
  have 1: "setCaloricResult_cacheKey J bmi d = getCaloricResult_cacheKey J bmi d"
    by (simp only: setCaloricResult_cacheKey_def getCaloricResult_cacheKey_def)
  have 2: "setCaloricResult_cacheKey J bmi (Some (JArr [])) =
       ''calorie:'' @ number_to_string J (of_int (floor (bmi / 2.5)) * 2.5) @ '':''"
    by (simp add: setCaloricResult_cacheKey_def Let_def array_join_def array_sort_def)
  have 3: "setCaloricResult_cacheKey J bmi v =
       ''calorie:'' @ number_to_string J (of_int (floor (bmi / 2.5)) * 2.5) @ '':none''"
    if "v = None \<or> v = Some JNull \<or> v = Some (JBool False) \<or> v = Some (JNum 0) \<or> v = Some (JStr [])"
    for v
    using that by (auto simp: setCaloricResult_cacheKey_def Let_def)
  have 4: "(setCaloricResult_cacheKey J bmi (Some (JArr xs)) =
              ''calorie:'' @ number_to_string J (of_int (floor (bmi / 2.5)) * 2.5) @ '':none'')
           = (array_join J (array_sort J xs) = ''none'')" for xs
    by (simp add: setCaloricResult_cacheKey_def Let_def)
  show ?thesis
    using 1 2 3 4 by blast
qed


section \<open>Verification: cache invalidation\<close>




lemma redisClient_del_cases:
  "redisClient_del this now key = Inr (False, this)
   \<or> (\<exists>r. client this = Some r \<and>
         redisClient_del this now key = Inr (True, this\<lparr>client := Some (r\<lparr>db := (db r)(key := None)\<rparr>)\<rparr>))"
  by (cases "connected_client this")
     (auto simp: redisClient_del_def client_del_def dest: connected_client_SomeD)

lemma cached_after_del:
  assumes "redisClient_del this now key = Inr (ok, this')" and "key' \<noteq> key"
  shows "cached this' t key' = cached this t key'"
  using redisClient_del_cases[of this now key] assms
  by (auto simp: cached_def live_def)

lemma delete_loop_frame:
  assumes "delete_loop this now needle keys = Inr this'" and "key' \<notin> set keys"
  shows "cached this' t key' = cached this t key'"
  using assms
proof (induction keys arbitrary: this)
  case Nil
  then show ?case by simp
next
  case (Cons key keys)
  show ?case
  proof (cases "includes_str key needle")
    case True
    with Cons.prems(1) obtain ok mid where
      del: "redisClient_del this now key = Inr (ok, mid)"
      and rest: "delete_loop mid now needle keys = Inr this'"
      by (auto elim!: and_then_InrE)
    from Cons.prems(2) have "key' \<noteq> key" and "key' \<notin> set keys" by auto
    then show ?thesis
      using Cons.IH[OF rest] cached_after_del[OF del] by simp
  next
    case False
    with Cons show ?thesis by simp
  qed
qed

lemma invalidate_pattern_frame:
  assumes "key' \<notin> set (keysToDelete userId)"
  shows "cached (invalidate_pattern this now userId pattern) t key' = cached this t key'"
proof -
  define needle where "needle =
    replace_first (replace_first (replace_first pattern '':userId'' userId) ''cache:'' []) '':userId:'' userId"
  show ?thesis
  proof (cases "delete_loop this now needle (keysToDelete userId)")
    case (Inl e)
    then show ?thesis
      by (simp add: invalidate_pattern_def Let_def needle_def)
  next
    case (Inr this')
    then show ?thesis
      using delete_loop_frame[OF Inr assms]
      by (simp add: invalidate_pattern_def Let_def needle_def)
  qed
qed

lemma invalidateCache_frame:
  assumes "\<forall>u. userId = Some u \<longrightarrow> key' \<notin> set (keysToDelete u)"
  shows "cached (invalidateCache patterns this now userId statusCode) t key' = cached this t key'"
proof -
  have fold: "cached (foldl (\<lambda>this' pattern. invalidate_pattern this' now u pattern) c ps) t key'
      = cached c t key'" if "key' \<notin> set (keysToDelete u)" for u c ps
    using that by (induction ps arbitrary: c) (simp_all add: invalidate_pattern_frame)
  show ?thesis
    using assms by (auto simp: invalidateCache_def invalidateAfterResponse_def fold split: option.splits)
qed

lemma profile_key_not_listed: "''healthData:'' @ u \<notin> set (keysToDelete v)"
  by (simp add: keysToDelete_def)

lemma demo_invalidation:
  "map (cached (invalidateCache [''health'', ''summary''] demo_health_cache 2000 (Some demo_user) 200) 2000)
     [''healthData:'' @ demo_user,
      healthCacheKey ''metrics'' demo_user,
      ''cache:'' @ demo_user @ '':/api/health/metrics'',
      ''cache:'' @ demo_user @ '':/api/meals/daily'',
      ''healthData:'' @ demo_other_user]
   = [Some ''profile'', Some ''metrics'', None, Some ''meals'', Some ''other profile'']"
  by (simp add: invalidateCache_def invalidateAfterResponse_def invalidate_pattern_def Let_def
      keysToDelete_def demo_user_def demo_other_user_def demo_health_cache_def demo_redis_def
      redisClient_del_def connected_client_def client_del_def cached_def live_def
      healthCacheKey_def)

text \<open>
  C6. At the failing input the backend is connected and holds the profile-cache entry of
  the user, the entry written by the cache middleware under \<open>healthCacheKey('metrics')\<close>,
  two entries under keys of the fixed list, and the profile-cache entry of another user.
  After the invalidation step for the patterns \<open>health\<close> and \<open>summary\<close> with status 200,
  only the listed key \<open>cache:<user>:/api/health/metrics\<close> is gone: the profile-cache entry
  and the \<open>healthCacheKey\<close> entry of the user are still served. In general the invalidation
  middleware never removes the profile-cache entry of any identity, whatever the patterns,
  the user and the status.
\<close>

theorem invalidate_health_keeps_profile_entry:
  "map (cached (invalidateCache [''health'', ''summary''] demo_health_cache 2000 (Some demo_user) 200) 2000)
     [''healthData:'' @ demo_user,
      healthCacheKey ''metrics'' demo_user,
      ''cache:'' @ demo_user @ '':/api/health/metrics'',
      ''cache:'' @ demo_user @ '':/api/meals/daily'',
      ''healthData:'' @ demo_other_user]
   = [Some ''profile'', Some ''metrics'', None, Some ''meals'', Some ''other profile'']
   \<and> cached (invalidateCache patterns this now userId statusCode) t (''healthData:'' @ u)
       = cached this t (''healthData:'' @ u)"
proof -
  have "cached (invalidateCache patterns this now userId statusCode) t (''healthData:'' @ u)
      = cached this t (''healthData:'' @ u)"
    by (rule invalidateCache_frame) (simp only: profile_key_not_listed simp_thms)
  with demo_invalidation show ?thesis
    by (intro conjI)
qed

end
